theory Spec2Isabelle
  imports Complex_Main
begin

section \<open>JavaScript values\<close>

text \<open>
  The webhook receives \<^verbatim>\<open>req.body\<close> with the static type \<^verbatim>\<open>any\<close>: whatever
  \<^verbatim>\<open>express.json()\<close> has left there. The completion returned by the provider's client
  is read through optional chaining, so it is treated as an arbitrary value too. Both are
  modelled by one type of JavaScript values.

  A number is a double: not a number, an infinity, or a finite value (the two zeros are
  identified, nothing in the program tells them apart).
\<close>

datatype jsnum = NaN | PosInfinity | NegInfinity | Fin real

text \<open>
  An object is the list of its own properties in insertion order. Objects built by
  \<^verbatim>\<open>JSON.parse\<close> have pairwise distinct names; \<open>map_of\<close> reads the first entry of a name.
\<close>

datatype jsval =
    JUndefined
  | JNull
  | JBool bool
  | JNum jsnum
  | JStr string
  | JArr "jsval list"
  | JObj "(string \<times> jsval) list"

text \<open>What a \<^verbatim>\<open>throw\<close> or a rejected promise carries.\<close>

datatype js_exn = TypeError | ProviderError string

text \<open>\<^verbatim>\<open>ToBoolean\<close>, as used by \<^verbatim>\<open>!x\<close> and \<^verbatim>\<open>x || y\<close>.\<close>

fun truthy :: "jsval \<Rightarrow> bool" where
  "truthy JUndefined = False"
| "truthy JNull = False"
| "truthy (JBool b) = b"
| "truthy (JNum NaN) = False"
| "truthy (JNum (Fin r)) = (r \<noteq> 0)"
| "truthy (JNum PosInfinity) = True"
| "truthy (JNum NegInfinity) = True"
| "truthy (JStr s) = (s \<noteq> [])"
| "truthy (JArr xs) = True"
| "truthy (JObj kvs) = True"

fun nullish :: "jsval \<Rightarrow> bool" where
  "nullish JUndefined = True"
| "nullish JNull = True"
| "nullish v = False"

text \<open>
  Reading a named property of a value that is neither \<^verbatim>\<open>undefined\<close> nor \<^verbatim>\<open>null\<close>. The
  program reads the names \<^verbatim>\<open>message\<close>, \<^verbatim>\<open>type\<close>, \<^verbatim>\<open>transcript\<close>, \<^verbatim>\<open>choices\<close> and
  \<^verbatim>\<open>content\<close> only; none of them is inherited from the prototype of an object, an array,
  a string, a number or a boolean, so only an object's own property can answer.
\<close>

fun js_get :: "jsval \<Rightarrow> string \<Rightarrow> jsval" where
  "js_get (JObj kvs) k = (case map_of kvs k of None \<Rightarrow> JUndefined | Some v \<Rightarrow> v)"
| "js_get v k = JUndefined"

text \<open>\<^verbatim>\<open>v.k\<close>: a \<^verbatim>\<open>TypeError\<close> on \<^verbatim>\<open>undefined\<close> and \<^verbatim>\<open>null\<close>.\<close>

definition js_member :: "jsval \<Rightarrow> string \<Rightarrow> js_exn + jsval" where
  "js_member v k = (if nullish v then Inl TypeError else Inr (js_get v k))"

text \<open>\<^verbatim>\<open>v?.k\<close>: \<^verbatim>\<open>undefined\<close> on \<^verbatim>\<open>undefined\<close> and \<^verbatim>\<open>null\<close>.\<close>

definition optional_member :: "jsval \<Rightarrow> string \<Rightarrow> jsval" where
  "optional_member v k = (if nullish v then JUndefined else js_get v k)"

text \<open>
  \<^verbatim>\<open>v?.[0]\<close>: the first element of an array, the first character of a string, the
  property named \<^verbatim>\<open>0\<close> of an object.
\<close>

fun opt_index0 :: "jsval \<Rightarrow> jsval" where
  "opt_index0 (JArr xs) = (case xs of [] \<Rightarrow> JUndefined | x # _ \<Rightarrow> x)"
| "opt_index0 (JStr s) = (case s of [] \<Rightarrow> JUndefined | c # _ \<Rightarrow> JStr [c])"
| "opt_index0 (JObj kvs) = (case map_of kvs ''0'' of None \<Rightarrow> JUndefined | Some v \<Rightarrow> v)"
| "opt_index0 v = JUndefined"

text \<open>\<^verbatim>\<open>a ?? b\<close> and \<^verbatim>\<open>a || b\<close>.\<close>

definition nullish_coalesce :: "jsval \<Rightarrow> jsval \<Rightarrow> jsval" where
  "nullish_coalesce a b = (if nullish a then b else a)"

definition logical_or :: "jsval \<Rightarrow> jsval \<Rightarrow> jsval" where
  "logical_or a b = (if truthy a then a else b)"

section \<open>The completion provider\<close>

text \<open>The argument of \<^verbatim>\<open>openai.chat.completions.create\<close>.\<close>

record chat_message =
  role :: string
  content :: jsval

record chat_request =
  model :: string
  messages :: "chat_message list"
  temperature :: real
  max_tokens :: nat

text \<open>
  The provider is outside the program, which uses two operations of its client library:
  \<^verbatim>\<open>new OpenAI({ apiKey })\<close> at line 67, which builds a client or throws, and
  \<^verbatim>\<open>openai.chat.completions.create(request)\<close> at line 69, whose awaited promise rejects
  or resolves to a completion. Both are parameters of the model. A client is known by the
  key it holds.
\<close>

datatype client = Client string

datatype outcome = Rejects js_exn | Resolves jsval

record provider =
  new_OpenAI :: "string option \<Rightarrow> js_exn + client"
  completions_create :: "client \<Rightarrow> chat_request \<Rightarrow> outcome"

text \<open>
  The two operations seen together, as the \<^verbatim>\<open>catch\<close> of line 109 sees them: a failure of
  either one arrives there, a completion only when the client was built and answered.
\<close>

definition provider_outcome :: "provider \<Rightarrow> string option \<Rightarrow> chat_request \<Rightarrow> outcome" where
  "provider_outcome openai apiKey request =
     (case new_OpenAI openai apiKey of
        Inl e \<Rightarrow> Rejects e
      | Inr client \<Rightarrow> completions_create openai client request)"

text \<open>\<^verbatim>\<open>process.env\<close>.\<close>

type_synonym environment = "string \<rightharpoonup> string"

section \<open>What a run does\<close>

text \<open>
  The handler answers through \<^verbatim>\<open>res.json\<close> and the generator calls the provider: both are
  effects, recorded in the order in which they happen. Entering the generator is recorded
  as well, so that it can be said that it did not run. A provider call is recorded when
  line 69 is reached, with the credential its client was built from. Console output is
  left out.
\<close>

datatype event =
    EnterGenerator jsval
  | ProviderCall "string option" chat_request
  | Respond nat jsval

fun responses :: "event list \<Rightarrow> (nat \<times> jsval) list" where
  "responses [] = []"
| "responses (Respond st b # es) = (st, b) # responses es"
| "responses (e # es) = responses es"

fun provider_calls :: "event list \<Rightarrow> (string option \<times> chat_request) list" where
  "provider_calls [] = []"
| "provider_calls (ProviderCall k q # es) = (k, q) # provider_calls es"
| "provider_calls (e # es) = provider_calls es"

fun generator_calls :: "event list \<Rightarrow> jsval list" where
  "generator_calls [] = []"
| "generator_calls (EnterGenerator u # es) = u # generator_calls es"
| "generator_calls (e # es) = generator_calls es"

section \<open>The response generator\<close>

definition greeting :: string where
  "greeting = ''Hello! Thanks for calling. I'm here to share how we partner with business owners like yourself to unlock new growth opportunities. To start, I'd love to learn about your business. What industry are you in?''"

definition fallback_prompt :: string where
  "fallback_prompt = ''I'm here to help. Could you tell me more about your business?''"

definition apology :: string where
  "apology = ''I apologize, I'm having a brief technical issue. Could you repeat that?''"

definition system_prompt :: string where
  "system_prompt =
     ''You are a knowledgeable business advisor helping business owners explore growth and partnership opportunities.\<newline>'' @
     ''\<newline>'' @
     ''Your personality:\<newline>'' @
     ''- Warm and professional, like a trusted consultant\<newline>'' @
     ''- Curious about their business\<newline>'' @
     ''- Helpful and educational, not pushy\<newline>'' @
     ''- Ask thoughtful follow-up questions\<newline>'' @
     ''\<newline>'' @
     ''Guidelines:\<newline>'' @
     ''- Keep responses brief (2-3 sentences) since this is a phone call\<newline>'' @
     ''- Ask ONE question at a time\<newline>'' @
     ''- Listen and acknowledge what they share\<newline>'' @
     ''- Share relevant insights when appropriate\<newline>'' @
     ''- Help them understand if this could be a good fit\<newline>'' @
     ''\<newline>'' @
     ''Topics to explore naturally:\<newline>'' @
     ''- Their industry and business model\<newline>'' @
     ''- Current challenges or goals\<newline>'' @
     ''- Business size and growth stage  \<newline>'' @
     ''- Their vision for the future\<newline>'' @
     ''- What would make them consider a partnership''"

text \<open>The request of lines 69 to 103.\<close>

definition completion_request :: "jsval \<Rightarrow> chat_request" where
  "completion_request userMessage =
     \<lparr>model = ''gpt-4'',
      messages =
        [\<lparr>role = ''system'', content = JStr system_prompt\<rparr>,
         \<lparr>role = ''user'', content = userMessage\<rparr>],
      temperature = 0.7,
      max_tokens = 150\<rparr>"

text \<open>Line 106: \<^verbatim>\<open>completion?.choices?.[0]?.message?.content\<close>.\<close>

definition first_choice_content :: "jsval \<Rightarrow> jsval" where
  "first_choice_content completion =
     optional_member
       (optional_member (opt_index0 (optional_member completion ''choices'')) ''message'')
       ''content''"

text \<open>
  The body of the \<^verbatim>\<open>try\<close> block of \<^verbatim>\<open>generateAIResponse\<close>: the credential is read from
  the environment and a client is built from it (line 67); when that throws, line 69 is
  not reached and nothing is sent. Otherwise the request is sent and the content of the
  completion is unwrapped.
\<close>

definition generate_try ::
  "provider \<Rightarrow> environment \<Rightarrow> jsval \<Rightarrow> (js_exn + jsval) \<times> event list" where
  "generate_try openai env userMessage =
     (let apiKey = env ''OPENAI_API_KEY'' in
      case new_OpenAI openai apiKey of
        Inl e \<Rightarrow> (Inl e, [])
      | Inr client \<Rightarrow>
          let request = completion_request userMessage in
          (case completions_create openai client request of
             Rejects e \<Rightarrow> (Inl e, [ProviderCall apiKey request])
           | Resolves completion \<Rightarrow>
               (Inr (nullish_coalesce (first_choice_content completion)
                  (JStr fallback_prompt)),
                [ProviderCall apiKey request])))"

text \<open>
  \<^verbatim>\<open>generateAIResponse\<close>. The parameter is declared a string, but the handler passes
  whatever the transcript is, so the model takes any value. The result is how the
  returned promise settles.
\<close>

definition generateAIResponse ::
  "provider \<Rightarrow> environment \<Rightarrow> jsval \<Rightarrow> (js_exn + jsval) \<times> event list" where
  "generateAIResponse openai env userMessage =
     (if \<not> truthy userMessage then (Inr (JStr greeting), [EnterGenerator userMessage])
      else case generate_try openai env userMessage of
             (Inr v, evs) \<Rightarrow> (Inr v, EnterGenerator userMessage # evs)
           | (Inl e, evs) \<Rightarrow> (Inr (JStr apology), EnterGenerator userMessage # evs))"

section \<open>The webhook endpoint\<close>

text \<open>
  Of the three routes only \<^verbatim>\<open>POST /api/vapi/webhook\<close> is modelled; the two \<^verbatim>\<open>GET\<close>
  routes and the start of the server take no part in what is proved below.
\<close>

text \<open>\<^verbatim>\<open>const { message } = req.body\<close>: destructuring throws on \<^verbatim>\<open>undefined\<close> and \<^verbatim>\<open>null\<close>.\<close>

definition destructure_message :: "jsval \<Rightarrow> js_exn + jsval" where
  "destructure_message body = js_member body ''message''"

text \<open>The body of the handler's \<^verbatim>\<open>try\<close> block.\<close>

definition webhook_try ::
  "provider \<Rightarrow> environment \<Rightarrow> jsval \<Rightarrow> (js_exn + unit) \<times> event list" where
  "webhook_try openai env body =
     (case destructure_message body of
        Inl e \<Rightarrow> (Inl e, [])
      | Inr message \<Rightarrow>
          if optional_member message ''type'' = JStr ''assistant-request'' then
            (case js_member message ''transcript'' of
               Inl e \<Rightarrow> (Inl e, [])
             | Inr transcript \<Rightarrow>
                 let userMessage = logical_or transcript (JStr '''') in
                 (case generateAIResponse openai env userMessage of
                    (Inl e, evs) \<Rightarrow> (Inl e, evs)
                  | (Inr response, evs) \<Rightarrow>
                      (Inr (), evs @ [Respond 200 (JObj [(''response'', response)])])))
          else (Inr (), [Respond 200 (JObj [(''received'', JBool True)])]))"

text \<open>The handler of \<^verbatim>\<open>POST /api/vapi/webhook\<close>: what it does, in order.\<close>

definition vapi_webhook :: "provider \<Rightarrow> environment \<Rightarrow> jsval \<Rightarrow> event list" where
  "vapi_webhook openai env body =
     (case webhook_try openai env body of
        (Inr u, evs) \<Rightarrow> evs
      | (Inl e, evs) \<Rightarrow>
          evs @ [Respond 500 (JObj [(''error'', JStr ''Internal server error'')])])"

section \<open>The route behind its middleware\<close>

text \<open>
  \<^verbatim>\<open>express.json()\<close> is registered at line 14, before the route. It hands a request on
  with \<^verbatim>\<open>req.body\<close> set (to the parsed value, or to nothing when there was no JSON body
  to parse), or it fails on a body that does not parse. After a failure Express does not
  call the handler of the route: its default error handler answers, with the status of the
  failure, 400. That is the framework's behaviour, not code of the repository.
\<close>

datatype body_parser = ParseFailure | Passed jsval

datatype answered = ByDefaultErrorHandler nat | ByHandler "event list"

definition post_vapi_webhook :: "provider \<Rightarrow> environment \<Rightarrow> body_parser \<Rightarrow> answered" where
  "post_vapi_webhook openai env parsed =
     (case parsed of
        ParseFailure \<Rightarrow> ByDefaultErrorHandler 400
      | Passed body \<Rightarrow> ByHandler (vapi_webhook openai env body))"

section \<open>The process after startup\<close>



section \<open>Providers for the examples\<close>

text \<open>
  A provider whose client, like the library's, cannot be built without a key, and which
  settles every request in the same way: the stub of a test.
\<close>

definition stub_provider :: "outcome \<Rightarrow> provider" where
  "stub_provider out =
     \<lparr>new_OpenAI =
        (\<lambda>apiKey. case apiKey of
           None \<Rightarrow> Inl (ProviderError ''The OPENAI_API_KEY environment variable is missing'')
         | Some key \<Rightarrow> Inr (Client key)),
      completions_create = (\<lambda>client request. out)\<rparr>"

text \<open>
  The client library declares the content of a choice as \<^verbatim>\<open>string | null\<close>. An outcome
  respects that declaration when the completion, read as line 106 reads it, holds a string
  or nothing.
\<close>

fun string_or_nullish :: "jsval \<Rightarrow> bool" where
  "string_or_nullish (JStr s) = True"
| "string_or_nullish JNull = True"
| "string_or_nullish JUndefined = True"
| "string_or_nullish v = False"

fun typed_outcome :: "outcome \<Rightarrow> bool" where
  "typed_outcome (Rejects e) = True"
| "typed_outcome (Resolves completion) = string_or_nullish (first_choice_content completion)"

section \<open>Basic facts\<close>

lemma responses_append: "responses (xs @ ys) = responses xs @ responses ys"
  by (induction xs rule: responses.induct) simp_all


lemma generator_calls_append:
  "generator_calls (xs @ ys) = generator_calls xs @ generator_calls ys"
  by (induction xs rule: generator_calls.induct) simp_all

text \<open>The generator: what it returns, what it sends, and that it answers nothing itself.\<close>

lemma generateAIResponse_falsy:
  "\<not> truthy u \<Longrightarrow>
     generateAIResponse openai env u = (Inr (JStr greeting), [EnterGenerator u])"
  by (simp add: generateAIResponse_def)

lemma generateAIResponse_value:
  assumes "truthy u"
  shows "fst (generateAIResponse openai env u) =
           (case provider_outcome openai (env ''OPENAI_API_KEY'') (completion_request u) of
              Rejects e \<Rightarrow> Inr (JStr apology)
            | Resolves completion \<Rightarrow>
                Inr (nullish_coalesce (first_choice_content completion)
                  (JStr fallback_prompt)))"
  using assms
  by (simp add: generateAIResponse_def generate_try_def provider_outcome_def Let_def
      split: sum.splits outcome.splits)

lemma generateAIResponse_responses: "responses (snd (generateAIResponse openai env u)) = []"
  by (simp add: generateAIResponse_def generate_try_def Let_def
      split: sum.splits outcome.splits)

lemma generateAIResponse_provider_calls:
  "provider_calls (snd (generateAIResponse openai env u)) =
     (if truthy u
      then (case new_OpenAI openai (env ''OPENAI_API_KEY'') of
              Inl e \<Rightarrow> []
            | Inr client \<Rightarrow> [(env ''OPENAI_API_KEY'', completion_request u)])
      else [])"
  by (simp add: generateAIResponse_def generate_try_def Let_def
      split: sum.splits outcome.splits)

text \<open>The promise returned by the generator never rejects.\<close>

lemma generateAIResponse_settles: "\<exists>v. fst (generateAIResponse openai env u) = Inr v"
  by (simp add: generateAIResponse_def generate_try_def Let_def
      split: sum.splits outcome.splits)

text \<open>The content of the first choice of a completion of the documented shape.\<close>

lemma first_choice_content_completion:
  assumes "map_of c ''choices'' = Some (JArr (JObj ch # others))"
    and "map_of ch ''message'' = Some (JObj msg)"
  shows "first_choice_content (JObj c) = js_get (JObj msg) ''content''"
  using assms by (simp add: first_choice_content_def optional_member_def)

text \<open>
  An assistant request: the handler runs the generator on the transcript, or on the empty
  string when the transcript is falsy, and answers with what the generator returned.
\<close>

lemma webhook_assistant_request:
  assumes "map_of kvs ''message'' = Some (JObj m)"
    and "map_of m ''type'' = Some (JStr ''assistant-request'')"
    and "generateAIResponse openai env
           (logical_or (js_get (JObj m) ''transcript'') (JStr '''')) = (Inr v, evs)"
  shows "vapi_webhook openai env (JObj kvs) = evs @ [Respond 200 (JObj [(''response'', v)])]"
  using assms
  by (simp add: vapi_webhook_def webhook_try_def destructure_message_def js_member_def
      optional_member_def)

lemma webhook_assistant_request_responses:
  assumes "map_of kvs ''message'' = Some (JObj m)"
    and "map_of m ''type'' = Some (JStr ''assistant-request'')"
    and "fst (generateAIResponse openai env
           (logical_or (js_get (JObj m) ''transcript'') (JStr ''''))) = Inr v"
  shows "responses (vapi_webhook openai env (JObj kvs)) = [(200, JObj [(''response'', v)])]"
proof -
  let ?u = "logical_or (js_get (JObj m) ''transcript'') (JStr '''')"
  obtain evs where g: "generateAIResponse openai env ?u = (Inr v, evs)"
    using assms(3) by (metis prod.collapse)
  with generateAIResponse_responses [of openai env ?u] have "responses evs = []"
    by simp
  with webhook_assistant_request [OF assms(1,2) g] show ?thesis
    by (simp add: responses_append)
qed

text \<open>
  The handler, request by request: an absent body, an assistant request, anything else.
\<close>

lemma webhook_no_body:
  "nullish body \<Longrightarrow>
     webhook_try openai env body = (Inl TypeError, [])
     \<and> vapi_webhook openai env body =
         [Respond 500 (JObj [(''error'', JStr ''Internal server error'')])]"
  by (simp add: vapi_webhook_def webhook_try_def destructure_message_def js_member_def)

lemma webhook_other_event:
  assumes "\<not> nullish body"
    and "optional_member (js_get body ''message'') ''type'' \<noteq> JStr ''assistant-request''"
  shows "webhook_try openai env body =
           (Inr (), [Respond 200 (JObj [(''received'', JBool True)])])
       \<and> vapi_webhook openai env body = [Respond 200 (JObj [(''received'', JBool True)])]"
  using assms
  by (simp add: vapi_webhook_def webhook_try_def destructure_message_def js_member_def)

lemma webhook_assistant_event:
  assumes "\<not> nullish body"
    and "optional_member (js_get body ''message'') ''type'' = JStr ''assistant-request''"
  shows "\<exists>v. fst (webhook_try openai env body) = Inr ()
       \<and> fst (generateAIResponse openai env
            (logical_or (js_get (js_get body ''message'') ''transcript'') (JStr ''''))) = Inr v
       \<and> vapi_webhook openai env body =
           snd (generateAIResponse openai env
             (logical_or (js_get (js_get body ''message'') ''transcript'') (JStr '''')))
           @ [Respond 200 (JObj [(''response'', v)])]"
proof -
  let ?u = "logical_or (js_get (js_get body ''message'') ''transcript'') (JStr '''')"
  from assms(2) have m: "\<not> nullish (js_get body ''message'')"
    by (auto simp: optional_member_def)
  obtain v evs where g: "generateAIResponse openai env ?u = (Inr v, evs)"
    using generateAIResponse_settles [of openai env ?u] by (metis prod.collapse)
  with assms m show ?thesis
    by (simp add: vapi_webhook_def webhook_try_def destructure_message_def js_member_def)
qed

text \<open>
  The \<^verbatim>\<open>try\<close> block of the handler throws exactly when there is no body to destructure.
\<close>

lemma webhook_try_raises:
  "fst (webhook_try openai env body) = Inl e \<longleftrightarrow> nullish body \<and> e = TypeError"
proof (cases "nullish body")
  case True
  then show ?thesis
    using webhook_no_body [of body openai env] by auto
next
  case present: False
  show ?thesis
  proof (cases "optional_member (js_get body ''message'') ''type'' = JStr ''assistant-request''")
    case True
    with present show ?thesis
      using webhook_assistant_event [of body openai env] by auto
  next
    case False
    with present show ?thesis
      using webhook_other_event [of body openai env] by auto
  qed
qed

section \<open>The greeting\<close>

text \<open>
  Claim C1. Called with the empty string, the response generator returns the fixed greeting
  and does nothing but return: the provider is not called. So an assistant request whose
  transcript is absent or the empty string is answered once, with status 200 and the
  greeting in the field \<^verbatim>\<open>response\<close>, and the provider is not called.
\<close>

theorem greeting_on_empty_input:
  assumes "map_of kvs ''message'' = Some (JObj m)"
    and "map_of m ''type'' = Some (JStr ''assistant-request'')"
    and "map_of m ''transcript'' = None \<or> map_of m ''transcript'' = Some (JStr '''')"
  shows "generateAIResponse openai env (JStr '''') =
           (Inr (JStr greeting), [EnterGenerator (JStr '''')])
       \<and> responses (vapi_webhook openai env (JObj kvs)) =
           [(200, JObj [(''response'', JStr greeting)])]
       \<and> provider_calls (vapi_webhook openai env (JObj kvs)) = []"
proof -
  have g: "generateAIResponse openai env (JStr '''') =
      (Inr (JStr greeting), [EnterGenerator (JStr '''')])"
    by (simp add: generateAIResponse_falsy)
  from assms(3) have "logical_or (js_get (JObj m) ''transcript'') (JStr '''') = JStr ''''"
    by (auto simp: logical_or_def)
  with g have "vapi_webhook openai env (JObj kvs) =
      [EnterGenerator (JStr ''''), Respond 200 (JObj [(''response'', JStr greeting)])]"
    using webhook_assistant_request [OF assms(1,2), of openai env "JStr greeting"
        "[EnterGenerator (JStr '''')]"]
    by simp
  with g show ?thesis by simp
qed

theorem greeting_on_empty_input_witness:
  "map_of [(''message'', JObj [(''type'', JStr ''assistant-request'')])] ''message'' =
     Some (JObj [(''type'', JStr ''assistant-request'')])
   \<and> map_of [(''type'', JStr ''assistant-request'')] ''type'' = Some (JStr ''assistant-request'')
   \<and> map_of [(''type'', JStr ''assistant-request'')] ''transcript'' = None
   \<and> responses
        (vapi_webhook (stub_provider (Resolves JNull)) Map.empty
           (JObj [(''message'', JObj [(''type'', JStr ''assistant-request'')])])) =
       [(200, JObj [(''response'', JStr greeting)])]
   \<and> provider_calls
        (vapi_webhook (stub_provider (Resolves JNull)) Map.empty
           (JObj [(''message'', JObj [(''type'', JStr ''assistant-request'')])])) = []"
proof -
  have h1: "map_of [(''message'', JObj [(''type'', JStr ''assistant-request'')])] ''message'' =
      Some (JObj [(''type'', JStr ''assistant-request'')])"
    by simp
  have h2: "map_of [(''type'', JStr ''assistant-request'')] ''type'' =
      Some (JStr ''assistant-request'')"
    by simp
  have h3: "map_of [(''type'', JStr ''assistant-request'')] ''transcript'' = None
      \<or> map_of [(''type'', JStr ''assistant-request'')] ''transcript'' = Some (JStr '''')"
    by simp
  from greeting_on_empty_input [OF h1 h2 h3, of "stub_provider (Resolves JNull)" Map.empty]
  show ?thesis by simp
qed

section \<open>Replies that come from the provider\<close>

text \<open>
  Claim C2. An assistant request with a transcript that is a non-empty string, handled
  while the provider resolves to a completion whose first choice has a message with the
  string \<open>X\<close> as content, is answered once, with status 200 and \<open>X\<close> itself in the field
  \<^verbatim>\<open>response\<close>.
\<close>

theorem provider_content_passed_through:
  assumes "map_of kvs ''message'' = Some (JObj m)"
    and "map_of m ''type'' = Some (JStr ''assistant-request'')"
    and "map_of m ''transcript'' = Some (JStr t)"
    and "t \<noteq> ''''"
    and "provider_outcome openai (env ''OPENAI_API_KEY'') (completion_request (JStr t)) =
           Resolves (JObj c)"
    and "map_of c ''choices'' = Some (JArr (JObj ch # others))"
    and "map_of ch ''message'' = Some (JObj msg)"
    and "map_of msg ''content'' = Some (JStr X)"
  shows "responses (vapi_webhook openai env (JObj kvs)) =
           [(200, JObj [(''response'', JStr X)])]"
proof -
  have u: "logical_or (js_get (JObj m) ''transcript'') (JStr '''') = JStr t"
    using assms(3,4) by (simp add: logical_or_def)
  have "first_choice_content (JObj c) = JStr X"
    using first_choice_content_completion [OF assms(6,7)] assms(8) by simp
  then have "fst (generateAIResponse openai env (JStr t)) = Inr (JStr X)"
    using generateAIResponse_value [of "JStr t" openai env] assms(4,5)
    by (simp add: nullish_coalesce_def)
  with u show ?thesis
    using webhook_assistant_request_responses [OF assms(1,2), of openai env "JStr X"]
    by simp
qed

theorem provider_content_passed_through_witness:
  "responses
     (vapi_webhook
        (stub_provider
           (Resolves (JObj [(''choices'',
              JArr [JObj [(''message'', JObj [(''content'', JStr ''X'')])]])])))
        [''OPENAI_API_KEY'' \<mapsto> ''sk-test'']
        (JObj [(''message'',
           JObj [(''type'', JStr ''assistant-request''), (''transcript'', JStr ''hi'')])])) =
   [(200, JObj [(''response'', JStr ''X'')])]"
proof -
  have h1: "map_of [(''message'',
        JObj [(''type'', JStr ''assistant-request''), (''transcript'', JStr ''hi'')])]
      ''message'' =
      Some (JObj [(''type'', JStr ''assistant-request''), (''transcript'', JStr ''hi'')])"
    by simp
  have h2: "map_of [(''type'', JStr ''assistant-request''), (''transcript'', JStr ''hi'')]
      ''type'' = Some (JStr ''assistant-request'')"
    by simp
  have h3: "map_of [(''type'', JStr ''assistant-request''), (''transcript'', JStr ''hi'')]
      ''transcript'' = Some (JStr ''hi'')"
    by simp
  have h4: "''hi'' \<noteq> ''''"
    by simp
  have h5: "provider_outcome
      (stub_provider
         (Resolves (JObj [(''choices'',
            JArr [JObj [(''message'', JObj [(''content'', JStr ''X'')])]])])))
      ([''OPENAI_API_KEY'' \<mapsto> ''sk-test''] ''OPENAI_API_KEY'')
      (completion_request (JStr ''hi'')) =
      Resolves (JObj [(''choices'',
         JArr [JObj [(''message'', JObj [(''content'', JStr ''X'')])]])])"
    by (simp add: provider_outcome_def stub_provider_def)
  have h6: "map_of [(''choices'',
        JArr [JObj [(''message'', JObj [(''content'', JStr ''X'')])]])] ''choices'' =
      Some (JArr (JObj [(''message'', JObj [(''content'', JStr ''X'')])] # []))"
    by simp
  have h7: "map_of [(''message'', JObj [(''content'', JStr ''X'')])] ''message'' =
      Some (JObj [(''content'', JStr ''X'')])"
    by simp
  have h8: "map_of [(''content'', JStr ''X'')] ''content'' = Some (JStr ''X'')"
    by simp
  from provider_content_passed_through
    [where openai = "stub_provider
       (Resolves (JObj [(''choices'',
          JArr [JObj [(''message'', JObj [(''content'', JStr ''X'')])]])]))"
      and env = "[''OPENAI_API_KEY'' \<mapsto> ''sk-test'']", OF h1 h2 h3 h4 h5 h6 h7 h8]
  show ?thesis .
qed

text \<open>
  Claim C4. An assistant request with a transcript that is a non-empty string, handled
  while the provider resolves to a completion in which the content of the first choice's
  message is \<^verbatim>\<open>null\<close> or missing (no such choice, message or content), is answered once,
  with status 200 and the fixed request for more information in the field \<^verbatim>\<open>response\<close>.
\<close>

theorem missing_content_falls_back:
  assumes "map_of kvs ''message'' = Some (JObj m)"
    and "map_of m ''type'' = Some (JStr ''assistant-request'')"
    and "map_of m ''transcript'' = Some (JStr t)"
    and "t \<noteq> ''''"
    and "provider_outcome openai (env ''OPENAI_API_KEY'') (completion_request (JStr t)) =
           Resolves completion"
    and "nullish (first_choice_content completion)"
  shows "responses (vapi_webhook openai env (JObj kvs)) =
           [(200, JObj [(''response'', JStr fallback_prompt)])]"
proof -
  have u: "logical_or (js_get (JObj m) ''transcript'') (JStr '''') = JStr t"
    using assms(3,4) by (simp add: logical_or_def)
  have "fst (generateAIResponse openai env (JStr t)) = Inr (JStr fallback_prompt)"
    using generateAIResponse_value [of "JStr t" openai env] assms(4,5,6)
    by (simp add: nullish_coalesce_def)
  with u show ?thesis
    using webhook_assistant_request_responses
      [OF assms(1,2), of openai env "JStr fallback_prompt"]
    by simp
qed

theorem missing_content_falls_back_witness:
  "nullish
     (first_choice_content
        (JObj [(''choices'', JArr [JObj [(''message'', JObj [(''content'', JNull)])]])]))
   \<and> responses
       (vapi_webhook
          (stub_provider
             (Resolves (JObj [(''choices'',
                JArr [JObj [(''message'', JObj [(''content'', JNull)])]])])))
          [''OPENAI_API_KEY'' \<mapsto> ''sk-test'']
          (JObj [(''message'',
             JObj [(''type'', JStr ''assistant-request''), (''transcript'', JStr ''hi'')])])) =
     [(200, JObj [(''response'', JStr fallback_prompt)])]"
proof -
  have h1: "map_of [(''message'',
        JObj [(''type'', JStr ''assistant-request''), (''transcript'', JStr ''hi'')])]
      ''message'' =
      Some (JObj [(''type'', JStr ''assistant-request''), (''transcript'', JStr ''hi'')])"
    by simp
  have h2: "map_of [(''type'', JStr ''assistant-request''), (''transcript'', JStr ''hi'')]
      ''type'' = Some (JStr ''assistant-request'')"
    by simp
  have h3: "map_of [(''type'', JStr ''assistant-request''), (''transcript'', JStr ''hi'')]
      ''transcript'' = Some (JStr ''hi'')"
    by simp
  have h4: "''hi'' \<noteq> ''''"
    by simp
  have h5: "provider_outcome
      (stub_provider
         (Resolves (JObj [(''choices'',
            JArr [JObj [(''message'', JObj [(''content'', JNull)])]])])))
      ([''OPENAI_API_KEY'' \<mapsto> ''sk-test''] ''OPENAI_API_KEY'')
      (completion_request (JStr ''hi'')) =
      Resolves (JObj [(''choices'',
         JArr [JObj [(''message'', JObj [(''content'', JNull)])]])])"
    by (simp add: provider_outcome_def stub_provider_def)
  have h6: "nullish
      (first_choice_content
         (JObj [(''choices'', JArr [JObj [(''message'', JObj [(''content'', JNull)])]])]))"
    by (simp add: first_choice_content_def optional_member_def)
  from missing_content_falls_back
    [where openai = "stub_provider
       (Resolves (JObj [(''choices'',
          JArr [JObj [(''message'', JObj [(''content'', JNull)])]])]))"
      and env = "[''OPENAI_API_KEY'' \<mapsto> ''sk-test'']", OF h1 h2 h3 h4 h5 h6] h6
  show ?thesis by simp
qed

section \<open>Failures of the provider\<close>

text \<open>
  Claim C3. When the call to the provider fails for an utterance that is a non-empty
  string, whatever the failure is and whether it is the client that cannot be built or
  the request that is rejected, the response generator returns the fixed apology: its
  promise resolves, it does not reject. An assistant request with that transcript is then
  answered once, with status 200 and the apology in the field \<^verbatim>\<open>response\<close>; no response
  with status 500 is sent.
\<close>

theorem provider_failure_absorbed:
  assumes "map_of kvs ''message'' = Some (JObj m)"
    and "map_of m ''type'' = Some (JStr ''assistant-request'')"
    and "map_of m ''transcript'' = Some (JStr t)"
    and "t \<noteq> ''''"
    and "provider_outcome openai (env ''OPENAI_API_KEY'') (completion_request (JStr t)) =
           Rejects e"
  shows "fst (generateAIResponse openai env (JStr t)) = Inr (JStr apology)
       \<and> responses (vapi_webhook openai env (JObj kvs)) =
           [(200, JObj [(''response'', JStr apology)])]"
proof -
  have u: "logical_or (js_get (JObj m) ''transcript'') (JStr '''') = JStr t"
    using assms(3,4) by (simp add: logical_or_def)
  have g: "fst (generateAIResponse openai env (JStr t)) = Inr (JStr apology)"
    using generateAIResponse_value [of "JStr t" openai env] assms(4,5) by simp
  with u have "responses (vapi_webhook openai env (JObj kvs)) =
      [(200, JObj [(''response'', JStr apology)])]"
    using webhook_assistant_request_responses [OF assms(1,2), of openai env "JStr apology"]
    by simp
  with g show ?thesis by simp
qed

theorem provider_failure_absorbed_witness:
  "fst (generateAIResponse (stub_provider (Rejects (ProviderError ''401 Unauthorized'')))
          [''OPENAI_API_KEY'' \<mapsto> ''sk-test''] (JStr ''hi'')) = Inr (JStr apology)
   \<and> responses
       (vapi_webhook (stub_provider (Rejects (ProviderError ''401 Unauthorized'')))
          [''OPENAI_API_KEY'' \<mapsto> ''sk-test'']
          (JObj [(''message'',
             JObj [(''type'', JStr ''assistant-request''), (''transcript'', JStr ''hi'')])])) =
     [(200, JObj [(''response'', JStr apology)])]"
proof -
  have h1: "map_of [(''message'',
        JObj [(''type'', JStr ''assistant-request''), (''transcript'', JStr ''hi'')])]
      ''message'' =
      Some (JObj [(''type'', JStr ''assistant-request''), (''transcript'', JStr ''hi'')])"
    by simp
  have h2: "map_of [(''type'', JStr ''assistant-request''), (''transcript'', JStr ''hi'')]
      ''type'' = Some (JStr ''assistant-request'')"
    by simp
  have h3: "map_of [(''type'', JStr ''assistant-request''), (''transcript'', JStr ''hi'')]
      ''transcript'' = Some (JStr ''hi'')"
    by simp
  have h4: "''hi'' \<noteq> ''''"
    by simp
  have h5: "provider_outcome (stub_provider (Rejects (ProviderError ''401 Unauthorized'')))
      ([''OPENAI_API_KEY'' \<mapsto> ''sk-test''] ''OPENAI_API_KEY'')
      (completion_request (JStr ''hi'')) =
      Rejects (ProviderError ''401 Unauthorized'')"
    by (simp add: provider_outcome_def stub_provider_def)
  from provider_failure_absorbed
    [where openai = "stub_provider (Rejects (ProviderError ''401 Unauthorized''))"
      and env = "[''OPENAI_API_KEY'' \<mapsto> ''sk-test'']", OF h1 h2 h3 h4 h5]
  show ?thesis .
qed

section \<open>Other events and failures of the handler\<close>

text \<open>
  Claim C5, in the form that holds. A request whose \<^verbatim>\<open>message.type\<close> is not the string
  \<^verbatim>\<open>assistant-request\<close> (the message or its type may be missing, and the rest of the body
  is arbitrary) is answered once and that is all the handler does: the response generator
  is not entered and the provider is not called. When the request has a body the answer is
  status 200 with \<^verbatim>\<open>{received: true}\<close>; when it has none (\<^verbatim>\<open>req.body\<close> is
  \<^verbatim>\<open>undefined\<close> or \<^verbatim>\<open>null\<close>) line 35 throws and the answer is status 500 with
  \<^verbatim>\<open>{error: "Internal server error"}\<close>.
\<close>

theorem other_events_acknowledged:
  assumes "optional_member (js_get body ''message'') ''type'' \<noteq> JStr ''assistant-request''"
  shows "vapi_webhook openai env body =
           (if nullish body
            then [Respond 500 (JObj [(''error'', JStr ''Internal server error'')])]
            else [Respond 200 (JObj [(''received'', JBool True)])])
       \<and> generator_calls (vapi_webhook openai env body) = []
       \<and> provider_calls (vapi_webhook openai env body) = []"
proof (cases "nullish body")
  case True
  then show ?thesis
    using webhook_no_body [of body openai env] by simp
next
  case False
  with assms show ?thesis
    using webhook_other_event [of body openai env] by simp
qed

theorem other_events_acknowledged_witness:
  "vapi_webhook (stub_provider (Resolves JNull)) [''OPENAI_API_KEY'' \<mapsto> ''sk-test'']
     (JObj [(''message'',
        JObj [(''type'', JStr ''status-update''), (''transcript'', JStr ''hi'')])]) =
   [Respond 200 (JObj [(''received'', JBool True)])]
   \<and> vapi_webhook (stub_provider (Resolves JNull)) [''OPENAI_API_KEY'' \<mapsto> ''sk-test'']
       (JObj []) =
     [Respond 200 (JObj [(''received'', JBool True)])]"
proof -
  have a: "optional_member
      (js_get (JObj [(''message'',
         JObj [(''type'', JStr ''status-update''), (''transcript'', JStr ''hi'')])])
         ''message'') ''type'' \<noteq> JStr ''assistant-request''"
    by (simp add: optional_member_def)
  have b: "optional_member (js_get (JObj []) ''message'') ''type'' \<noteq>
      JStr ''assistant-request''"
    by (simp add: optional_member_def)
  from other_events_acknowledged
      [of _ "stub_provider (Resolves JNull)" "[''OPENAI_API_KEY'' \<mapsto> ''sk-test'']", OF a]
    other_events_acknowledged
      [of _ "stub_provider (Resolves JNull)" "[''OPENAI_API_KEY'' \<mapsto> ''sk-test'']", OF b]
  show ?thesis by simp
qed

text \<open>
  The specification states the acknowledgment for every such request. A request without
  a body is one: its \<^verbatim>\<open>message.type\<close> is not the string \<^verbatim>\<open>assistant-request\<close>, and it
  is answered with status 500.
\<close>

theorem bodiless_request_counterexample:
  "optional_member (js_get JUndefined ''message'') ''type'' \<noteq> JStr ''assistant-request''
   \<and> responses
       (vapi_webhook (stub_provider (Resolves JNull)) [''OPENAI_API_KEY'' \<mapsto> ''sk-test'']
          JUndefined) =
     [(500, JObj [(''error'', JStr ''Internal server error'')])]"
  by (simp add: optional_member_def vapi_webhook_def webhook_try_def destructure_message_def
      js_member_def)

text \<open>
  Claim C6, in the form that holds. The \<^verbatim>\<open>try\<close> block of the handler throws in one case
  only, a request without a body, and what it throws is the \<^verbatim>\<open>TypeError\<close> of line 35; the
  response generator never throws. That exception is caught by the handler's \<^verbatim>\<open>catch\<close>
  and answered once, with status 500 and the body \<^verbatim>\<open>{error: "Internal server error"}\<close>,
  which holds nothing of the exception. A failure upstream of the handler, the body parser
  rejecting the body, does not reach that \<^verbatim>\<open>catch\<close>: the handler does not run and the
  framework answers with status 400.
\<close>

theorem handler_exception_gives_500:
  "(fst (webhook_try openai env body) = Inl e \<longleftrightarrow> nullish body \<and> e = TypeError)
   \<and> (nullish body \<longrightarrow>
        vapi_webhook openai env body =
          [Respond 500 (JObj [(''error'', JStr ''Internal server error'')])]
        \<and> post_vapi_webhook openai env (Passed body) =
          ByHandler [Respond 500 (JObj [(''error'', JStr ''Internal server error'')])])
   \<and> (\<exists>v. fst (generateAIResponse openai env u) = Inr v)
   \<and> post_vapi_webhook openai env ParseFailure = ByDefaultErrorHandler 400"
  using webhook_try_raises [of openai env body e] webhook_no_body [of body openai env]
    generateAIResponse_settles [of openai env u]
  by (simp add: post_vapi_webhook_def)

theorem handler_exception_gives_500_witness:
  "fst (webhook_try (stub_provider (Resolves JNull)) Map.empty JUndefined) = Inl TypeError
   \<and> vapi_webhook (stub_provider (Resolves JNull)) Map.empty JUndefined =
       [Respond 500 (JObj [(''error'', JStr ''Internal server error'')])]
   \<and> post_vapi_webhook (stub_provider (Resolves JNull)) Map.empty (Passed JUndefined) =
       ByHandler [Respond 500 (JObj [(''error'', JStr ''Internal server error'')])]"
  using handler_exception_gives_500
    [of "stub_provider (Resolves JNull)" Map.empty JUndefined TypeError JUndefined]
  by simp

text \<open>
  The specification states the status 500 for every failure of the handling of a request,
  and names a body that does not parse. That request is answered with status 400, and not
  by the handler.
\<close>

theorem parse_failure_counterexample:
  "post_vapi_webhook (stub_provider (Resolves JNull)) [''OPENAI_API_KEY'' \<mapsto> ''sk-test'']
     ParseFailure = ByDefaultErrorHandler 400
   \<and> post_vapi_webhook (stub_provider (Resolves JNull)) [''OPENAI_API_KEY'' \<mapsto> ''sk-test'']
       ParseFailure \<noteq>
     ByHandler [Respond 500 (JObj [(''error'', JStr ''Internal server error'')])]"
  by (simp add: post_vapi_webhook_def)

section \<open>The request sent to the provider\<close>

text \<open>
  Claim C7. For an utterance that is a non-empty string the response generator sends at
  most one request to the provider: none when the client cannot be built from the
  credential, exactly one otherwise. The request that is sent has the model \<^verbatim>\<open>gpt-4\<close>,
  temperature 0.7, a limit of 150 tokens, and exactly two messages: the fixed instruction
  in the role \<^verbatim>\<open>system\<close>, then the utterance, unchanged, in the role \<^verbatim>\<open>user\<close>. No
  earlier turn is part of it.
\<close>

theorem completion_request_shape:
  assumes "u \<noteq> ''''"
  shows "provider_calls (snd (generateAIResponse openai env (JStr u))) =
           (case new_OpenAI openai (env ''OPENAI_API_KEY'') of
              Inl e \<Rightarrow> []
            | Inr client \<Rightarrow>
                [(env ''OPENAI_API_KEY'',
                  \<lparr>model = ''gpt-4'',
                   messages =
                     [\<lparr>role = ''system'', content = JStr system_prompt\<rparr>,
                      \<lparr>role = ''user'', content = JStr u\<rparr>],
                   temperature = 0.7,
                   max_tokens = 150\<rparr>)])"
  using assms generateAIResponse_provider_calls [of openai env "JStr u"]
  by (simp add: completion_request_def split: sum.splits)

theorem completion_request_shape_witness:
  "provider_calls
     (snd (generateAIResponse (stub_provider (Resolves JNull))
        [''OPENAI_API_KEY'' \<mapsto> ''sk-test''] (JStr ''We sell bicycles''))) =
   [(Some ''sk-test'',
     \<lparr>model = ''gpt-4'',
      messages =
        [\<lparr>role = ''system'', content = JStr system_prompt\<rparr>,
         \<lparr>role = ''user'', content = JStr ''We sell bicycles''\<rparr>],
      temperature = 0.7,
      max_tokens = 150\<rparr>)]
   \<and> provider_calls
       (snd (generateAIResponse (stub_provider (Resolves JNull)) Map.empty
          (JStr ''We sell bicycles''))) = []"
proof -
  have h: "''We sell bicycles'' \<noteq> ''''"
    by simp
  from completion_request_shape
      [OF h, of "stub_provider (Resolves JNull)" "[''OPENAI_API_KEY'' \<mapsto> ''sk-test'']"]
    completion_request_shape [OF h, of "stub_provider (Resolves JNull)" Map.empty]
  show ?thesis by (simp add: stub_provider_def)
qed

section \<open>The credential\<close>








section \<open>One response for each request\<close>

text \<open>With a provider that respects its declared type the generator returns a string.\<close>

lemma generateAIResponse_typed:
  assumes "\<forall>k q. typed_outcome (provider_outcome openai k q)"
  shows "\<exists>s. fst (generateAIResponse openai env u) = Inr (JStr s)"
proof (cases "truthy u")
  case False
  then show ?thesis by (simp add: generateAIResponse_falsy)
next
  case True
  show ?thesis
  proof (cases "provider_outcome openai (env ''OPENAI_API_KEY'') (completion_request u)")
    case (Rejects e)
    with True show ?thesis by (simp add: generateAIResponse_value)
  next
    case (Resolves completion)
    from assms
    have "typed_outcome
        (provider_outcome openai (env ''OPENAI_API_KEY'') (completion_request u))"
      by blast
    with Resolves have "string_or_nullish (first_choice_content completion)"
      by simp
    then have "\<exists>s. nullish_coalesce (first_choice_content completion) (JStr fallback_prompt) =
        JStr s"
      by (cases "first_choice_content completion") (simp_all add: nullish_coalesce_def)
    with True Resolves show ?thesis
      by (auto simp: generateAIResponse_value)
  qed
qed

text \<open>
  Claim C9. The handler answers every request, whatever its body, exactly once, and the
  answer has one of three shapes: status 200 with a reply \<^verbatim>\<open>{response: s}\<close> for a string
  \<open>s\<close>, status 200 with the acknowledgment \<^verbatim>\<open>{received: true}\<close>, or status 500 with the
  error \<^verbatim>\<open>{error: "Internal server error"}\<close>. The provider is taken to respect the type
  its client declares: the content of a choice is a string or nothing.
\<close>

theorem exactly_one_response:
  assumes "\<forall>k q. typed_outcome (provider_outcome openai k q)"
  shows "\<exists>st b. responses (vapi_webhook openai env body) = [(st, b)]
         \<and> ((st = 200 \<and> (\<exists>s. b = JObj [(''response'', JStr s)]))
            \<or> (st = 200 \<and> b = JObj [(''received'', JBool True)])
            \<or> (st = 500 \<and> b = JObj [(''error'', JStr ''Internal server error'')]))"
proof (cases "nullish body")
  case True
  then show ?thesis
    using webhook_no_body [of body openai env] by simp
next
  case present: False
  show ?thesis
  proof (cases "optional_member (js_get body ''message'') ''type'' = JStr ''assistant-request''")
    case False
    with present show ?thesis
      using webhook_other_event [of body openai env] by simp
  next
    case True
    let ?u = "logical_or (js_get (js_get body ''message'') ''transcript'') (JStr '''')"
    obtain s where s: "fst (generateAIResponse openai env ?u) = Inr (JStr s)"
      using generateAIResponse_typed [OF assms] by blast
    from webhook_assistant_event [OF present True, of openai env] s
    have "vapi_webhook openai env body =
        snd (generateAIResponse openai env ?u) @ [Respond 200 (JObj [(''response'', JStr s)])]"
      by auto
    then show ?thesis
      by (simp add: responses_append generateAIResponse_responses)
  qed
qed

theorem exactly_one_response_witness:
  "(\<forall>k q. typed_outcome
      (provider_outcome
         (stub_provider
            (Resolves (JObj [(''choices'',
               JArr [JObj [(''message'', JObj [(''content'', JStr ''X'')])]])]))) k q))
   \<and> (\<exists>st b. responses
         (vapi_webhook
            (stub_provider
               (Resolves (JObj [(''choices'',
                  JArr [JObj [(''message'', JObj [(''content'', JStr ''X'')])]])])))
            [''OPENAI_API_KEY'' \<mapsto> ''sk-test'']
            (JObj [(''message'',
               JObj [(''type'', JStr ''assistant-request''),
                     (''transcript'', JStr ''hi'')])])) = [(st, b)]
         \<and> ((st = 200 \<and> (\<exists>s. b = JObj [(''response'', JStr s)]))
            \<or> (st = 200 \<and> b = JObj [(''received'', JBool True)])
            \<or> (st = 500 \<and> b = JObj [(''error'', JStr ''Internal server error'')])))"
proof -
  have h: "\<forall>k q. typed_outcome
      (provider_outcome
         (stub_provider
            (Resolves (JObj [(''choices'',
               JArr [JObj [(''message'', JObj [(''content'', JStr ''X'')])]])]))) k q)"
    by (simp add: provider_outcome_def stub_provider_def first_choice_content_def
        optional_member_def split: option.splits)
  from exactly_one_response [OF h] h
  show ?thesis by blast
qed

section \<open>No state between requests\<close>

lemma generateAIResponse_same_outcome:
  assumes "\<forall>q. provider_outcome openai1 (env1 ''OPENAI_API_KEY'') q =
             provider_outcome openai2 (env2 ''OPENAI_API_KEY'') q"
  shows "fst (generateAIResponse openai1 env1 u) = fst (generateAIResponse openai2 env2 u)"
proof (cases "truthy u")
  case False
  then show ?thesis by (simp add: generateAIResponse_falsy)
next
  case True
  from assms
  have "provider_outcome openai1 (env1 ''OPENAI_API_KEY'') (completion_request u) =
      provider_outcome openai2 (env2 ''OPENAI_API_KEY'') (completion_request u)"
    by blast
  with True show ?thesis
    by (simp add: generateAIResponse_value)
qed

text \<open>
  Claim C10. The responses of the handler are a function of the request body and of how
  the provider behaves. Two runs on the same body, in any two environments and with any
  two providers that settle every request in the same way (the same content, the same
  missing content or the same failure), send the same responses: nothing else, and nothing
  left behind by an earlier request, has a part in them.
\<close>

theorem responses_determined_by_body_and_provider:
  assumes "\<forall>q. provider_outcome openai1 (env1 ''OPENAI_API_KEY'') q =
             provider_outcome openai2 (env2 ''OPENAI_API_KEY'') q"
  shows "responses (vapi_webhook openai1 env1 body) = responses (vapi_webhook openai2 env2 body)"
proof (cases "nullish body")
  case True
  then show ?thesis
    using webhook_no_body [of body openai1 env1] webhook_no_body [of body openai2 env2]
    by simp
next
  case present: False
  show ?thesis
  proof (cases "optional_member (js_get body ''message'') ''type'' = JStr ''assistant-request''")
    case False
    with present show ?thesis
      using webhook_other_event [of body openai1 env1]
        webhook_other_event [of body openai2 env2]
      by simp
  next
    case True
    let ?u = "logical_or (js_get (js_get body ''message'') ''transcript'') (JStr '''')"
    from generateAIResponse_same_outcome [of openai1 env1 openai2 env2 ?u] assms
    have "fst (generateAIResponse openai1 env1 ?u) = fst (generateAIResponse openai2 env2 ?u)"
      by blast
    with webhook_assistant_event [OF present True, of openai1 env1]
      webhook_assistant_event [OF present True, of openai2 env2]
    show ?thesis
      by (auto simp: responses_append generateAIResponse_responses)
  qed
qed

theorem responses_determined_by_body_and_provider_witness:
  "(\<forall>q. provider_outcome (stub_provider (Rejects (ProviderError ''timeout'')))
           ([''OPENAI_API_KEY'' \<mapsto> ''sk-1''] ''OPENAI_API_KEY'') q =
         provider_outcome (stub_provider (Rejects (ProviderError ''timeout'')))
           ([''OPENAI_API_KEY'' \<mapsto> ''sk-2''] ''OPENAI_API_KEY'') q)
   \<and> responses
       (vapi_webhook (stub_provider (Rejects (ProviderError ''timeout'')))
          [''OPENAI_API_KEY'' \<mapsto> ''sk-1'']
          (JObj [(''message'',
             JObj [(''type'', JStr ''assistant-request''), (''transcript'', JStr ''hi'')])])) =
     responses
       (vapi_webhook (stub_provider (Rejects (ProviderError ''timeout'')))
          [''OPENAI_API_KEY'' \<mapsto> ''sk-2'']
          (JObj [(''message'',
             JObj [(''type'', JStr ''assistant-request''), (''transcript'', JStr ''hi'')])]))"
proof -
  have h: "\<forall>q. provider_outcome (stub_provider (Rejects (ProviderError ''timeout'')))
        ([''OPENAI_API_KEY'' \<mapsto> ''sk-1''] ''OPENAI_API_KEY'') q =
      provider_outcome (stub_provider (Rejects (ProviderError ''timeout'')))
        ([''OPENAI_API_KEY'' \<mapsto> ''sk-2''] ''OPENAI_API_KEY'') q"
    by (simp add: provider_outcome_def stub_provider_def)
  from responses_determined_by_body_and_provider
    [of "stub_provider (Rejects (ProviderError ''timeout''))"
      "[''OPENAI_API_KEY'' \<mapsto> ''sk-1'']"
      "stub_provider (Rejects (ProviderError ''timeout''))"
      "[''OPENAI_API_KEY'' \<mapsto> ''sk-2'']", OF h] h
  show ?thesis by blast
qed

end
